theory Spec2Isabelle
  imports Main
begin

section \<open>Campus parking backend: bookings, availability and the expiry job\<close>

text \<open>
  A shallow embedding of the booking handlers of the Express server: the zone
  availability computations, booking creation (inside a database transaction),
  cancellation, check-in, check-out, event creation and the hourly expiry job.

  Conventions of the model.
  \<^item> A \<open>Date\<close> is its number of milliseconds since the epoch, an \<open>int\<close>.
    \<open>setHours(0, 0, 0, 0)\<close> and \<open>setHours(23, 59, 59, 999)\<close> are taken in a
    server whose local time is UTC.
  \<^item> ObjectIds are natural numbers.
  \<^item> The collections are lists of documents in insertion order; a document
    carries its own \<open>_id\<close>.
  \<^item> \<open>broadcast(data)\<close> appends the message to the log \<open>sent\<close> of the world.
  \<^item> \<open>new Date()\<close>, the generated ObjectId, the generated QR token and the
    outcome of a write inside the transaction come from an environment record.
  \<^item> A write can fail inside the two transactions (booking creation and event
    creation), where the handler has an abort path for it; the writes of the
    other handlers are taken to succeed.
  \<^item> A handler is a function of the store it meets, so it is modelled run alone.
    The two handlers with a transaction are also given with their session as an
    argument (\<open>createBookingIn\<close>, \<open>createEventIn\<close>): the session reads from its
    snapshot, which need not be the store that its commit meets.
  \<^item> Push notifications and the HTTP response bodies are left out: they change
    neither the store nor the broadcast log.

  About the days only three facts are used below: \<open>startOfDay t \<le> t\<close>,
  \<open>t \<le> endOfDay t\<close>, and that \<open>endOfDay\<close> is determined by \<open>startOfDay\<close>.
\<close>

subsection \<open>Data model\<close>

datatype status =
  Pending | Active | CheckedIn | CheckedOut | Completed | Cancelled | Expired

datatype zone_type = StudentZone | StaffZone | VisitorZone | GeneralZone | EventZone

datatype role = Student | Staff | Visitor | Admin | OtherRole

datatype violation_type = Overstay | UnauthorizedViolation | NoCheckout | OtherViolation

record violation =
  v_type :: violation_type
  description :: string
  timestamp :: int

record zone =
  zid :: nat
  zname :: string
  ztype :: zone_type
  totalSlots :: int

record booking =
  bid :: nat
  userId :: nat
  zoneId :: nat
  zoneName :: string
  qrCode :: string
  date :: int
  startTime :: "int option"
  endTime :: "int option"
  duration :: int
  vehicleNumber :: string
  status :: status
  checkInTime :: "int option"
  checkOutTime :: "int option"
  violations :: "violation list"

record event =
  eid :: nat
  ename :: string
  edate :: int
  allocatedSlots :: int
  ezoneId :: "nat option"

record notification =
  n_userId :: nat
  title :: string
  message :: string
  n_type :: string

text \<open>The messages handed to \<open>broadcast\<close>, by their \<open>type\<close> field.\<close>

datatype msg =
  ZoneUpdate nat int
  | BookingCreated nat string
  | BookingCancelled nat string
  | NotificationMsg nat string string string
  | ZoneDeleted nat

record world =
  zones :: "zone list"
  bookings :: "booking list"
  events :: "event list"
  notifications :: "notification list"
  sent :: "msg list"

text \<open>The authenticated caller, as \<open>authenticateToken\<close> leaves it in \<open>req.user\<close>.\<close>

record auth =
  uid :: nat
  urole :: role

text \<open>The early returns of the handlers (HTTP status and message in the source).\<close>

datatype failure =
  Unauthorized            \<comment> \<open>403 Unauthorized\<close>
  | ZoneNotFound          \<comment> \<open>404 Zone not found\<close>
  | AccessDenied          \<comment> \<open>403 ...s are not allowed to book ... parking zones\<close>
  | DuplicateBooking      \<comment> \<open>400 You already have an active booking for this zone on this date\<close>
  | NoSlotsAvailable      \<comment> \<open>400 No slots available for this date\<close>
  | ServerError           \<comment> \<open>500, the catch block\<close>
  | BookingNotFound       \<comment> \<open>404 Booking not found\<close>
  | AlreadyCancelled      \<comment> \<open>400 Booking already cancelled\<close>
  | QrRequired            \<comment> \<open>400 Valid QR code required\<close>
  | NotActive             \<comment> \<open>404 Invalid QR code or booking not active\<close>
  | AlreadyCheckedIn      \<comment> \<open>400 Already checked in\<close>
  | CheckInRequired       \<comment> \<open>400 Please check-in first\<close>
  | AlreadyCheckedOut     \<comment> \<open>400 Already checked out\<close>
  | AdminRequired         \<comment> \<open>403 Admin access required\<close>
  | FieldsRequired        \<comment> \<open>400 name, date, and allocatedSlots are required\<close>
  | SlotsNotPositive      \<comment> \<open>400 allocatedSlots must be a positive number\<close>
  | ZoneDoesNotExist      \<comment> \<open>400 Selected zone does not exist\<close>
  | NotEnoughSlots        \<comment> \<open>400 Not enough available slots\<close>
  | InvalidDate           \<comment> \<open>400 Invalid date format\<close>
  | ZoneInUse             \<comment> \<open>400 Cannot delete zone with active bookings\<close>

subsection \<open>Dates\<close>

definition msPerDay :: int where
  "msPerDay = 86400000"

definition msPerHour :: int where
  "msPerHour = 3600000"

text \<open>\<open>d.setHours(0, 0, 0, 0)\<close>\<close>

definition startOfDay :: "int \<Rightarrow> int" where
  "startOfDay t = t - t mod msPerDay"

text \<open>\<open>d.setHours(23, 59, 59, 999)\<close>\<close>

definition endOfDay :: "int \<Rightarrow> int" where
  "endOfDay t = startOfDay t + (msPerDay - 1)"

subsection \<open>Queries\<close>

text \<open>\<open>Zone.findById\<close> and \<open>Booking.findById\<close>: the first document with that id.\<close>

definition findZone :: "nat \<Rightarrow> zone list \<Rightarrow> zone option" where
  "findZone i zs = find (\<lambda>z. zid z = i) zs"

definition findBooking :: "nat \<Rightarrow> booking list \<Rightarrow> booking option" where
  "findBooking i bs = find (\<lambda>b. bid b = i) bs"

text \<open>
  \<open>Booking.countDocuments({ zoneId, status: 'active', date: { $gte: lo, $lte: hi } })\<close>
\<close>

definition countActive :: "nat \<Rightarrow> int \<Rightarrow> int \<Rightarrow> booking list \<Rightarrow> int" where
  "countActive z lo hi bs =
     int (length (filter (\<lambda>b. zoneId b = z \<and> status b = Active \<and> lo \<le> date b \<and> date b \<le> hi) bs))"

text \<open>
  \<open>Booking.countDocuments({ zoneId, status: 'active', date: { $gte: lo } })\<close>, the
  count of the event handlers.
\<close>

definition countActiveFrom :: "nat \<Rightarrow> int \<Rightarrow> booking list \<Rightarrow> int" where
  "countActiveFrom z lo bs =
     int (length (filter (\<lambda>b. zoneId b = z \<and> status b = Active \<and> lo \<le> date b) bs))"

text \<open>
  The aggregation \<open>$match { zoneId, date: { $gte: lo } }\<close>,
  \<open>$group { total: { $sum: '$allocatedSlots' } }\<close>, with 0 for no match.
\<close>

definition totalEventSlots :: "nat \<Rightarrow> int \<Rightarrow> event list \<Rightarrow> int" where
  "totalEventSlots z lo es =
     sum_list (map allocatedSlots (filter (\<lambda>e. ezoneId e = Some z \<and> lo \<le> edate e) es))"

text \<open>\<open>doc.save()\<close> of a loaded document: the stored document of that id is replaced.\<close>

definition saveBooking :: "booking \<Rightarrow> booking list \<Rightarrow> booking list" where
  "saveBooking b bs = map (\<lambda>x. if bid x = bid b then b else x) bs"

definition broadcast :: "msg \<Rightarrow> world \<Rightarrow> world" where
  "broadcast m w = w\<lparr>sent := sent w @ [m]\<rparr>"

definition createNotification :: "notification \<Rightarrow> world \<Rightarrow> world" where
  "createNotification n w = w\<lparr>notifications := notifications w @ [n]\<rparr>"

subsection \<open>Availability\<close>

record zone_info =
  zi_id :: nat
  zi_name :: string
  zi_total :: int
  available :: int
  zi_type :: zone_type

text \<open>\<open>getZoneAvailability(zoneId)\<close>: today's active bookings, no event deduction.\<close>

definition getZoneAvailability :: "int \<Rightarrow> nat \<Rightarrow> world \<Rightarrow> zone_info option" where
  "getZoneAvailability now z w =
     (case findZone z (zones w) of
        None \<Rightarrow> None
      | Some zone \<Rightarrow>
          (let activeBookings = countActive z (startOfDay now) (endOfDay now) (bookings w)
           in Some \<lparr>zi_id = zid zone, zi_name = zname zone, zi_total = totalSlots zone,
                     available = max 0 (totalSlots zone - activeBookings),
                     zi_type = ztype zone\<rparr>))"

text \<open>
  \<open>GET /api/zones\<close>: for each zone, today's active bookings and the allocations of
  all its events dated today or later are deducted.
\<close>

definition zoneWithAvailability :: "int \<Rightarrow> world \<Rightarrow> zone \<Rightarrow> zone_info" where
  "zoneWithAvailability now w zone =
     (let activeBookings = countActive (zid zone) (startOfDay now) (endOfDay now) (bookings w);
          eventSlots = totalEventSlots (zid zone) (startOfDay now) (events w)
      in \<lparr>zi_id = zid zone, zi_name = zname zone, zi_total = totalSlots zone,
           available = max 0 (totalSlots zone - activeBookings - eventSlots),
           zi_type = ztype zone\<rparr>)"

definition getZones :: "int \<Rightarrow> world \<Rightarrow> zone_info list" where
  "getZones now w = map (zoneWithAvailability now w) (zones w)"

text \<open>
  \<open>GET /api/zones/:zoneId/availability?date=\<close>: the active bookings of the queried
  day, no event deduction. The date is \<open>None\<close> when \<open>new Date(date)\<close> is invalid.
  The result is the pair \<open>(available, booked)\<close>.
\<close>

definition zoneAvailability :: "nat \<Rightarrow> int option \<Rightarrow> world \<Rightarrow> failure + (int \<times> int)" where
  "zoneAvailability z d w =
     (case findZone z (zones w) of
        None \<Rightarrow> Inl ZoneNotFound
      | Some zone \<Rightarrow>
          (case d of
             None \<Rightarrow> Inl InvalidDate
           | Some bookingDate \<Rightarrow>
               (let activeBookings =
                      countActive z (startOfDay bookingDate) (endOfDay bookingDate) (bookings w)
                in Inr (max 0 (totalSlots zone - activeBookings), activeBookings))))"

subsection \<open>The transaction of the store\<close>

text \<open>
  A session reads from a snapshot of the store, taken when its transaction
  starts, together with its own writes, and collects the inserts made with
  \<open>{ session }\<close>. \<open>commitTransaction\<close> applies all of them to the store as it is
  at the commit, \<open>abortTransaction\<close> drops all of them. An insert fails on the
  unique indexes (\<open>_id\<close>, \<open>qrCode\<close>), on schema validation, or when the store
  refuses it; a commit fails on a key that another writer has stored since the
  snapshot, or when the store refuses it.
\<close>

record session =
  snapshot :: world
  s_bookings :: "booking list"
  s_events :: "event list"
  s_notifications :: "notification list"

definition startTransaction :: "world \<Rightarrow> session" where
  "startTransaction w = \<lparr>snapshot = w, s_bookings = [], s_events = [], s_notifications = []\<rparr>"

text \<open>What a query with \<open>.session(session)\<close> reads.\<close>

definition sessionZones :: "session \<Rightarrow> zone list" where
  "sessionZones s = zones (snapshot s)"

definition sessionBookings :: "session \<Rightarrow> booking list" where
  "sessionBookings s = bookings (snapshot s) @ s_bookings s"

definition sessionEvents :: "session \<Rightarrow> event list" where
  "sessionEvents s = events (snapshot s) @ s_events s"

record env =
  now :: int
  newId :: nat
  newQr :: string
  bookingWriteOk :: bool
  eventWriteOk :: bool
  notificationWriteOk :: bool
  commitOk :: bool

text \<open>\<open>booking.save({ session })\<close>; \<open>vehicleNumber\<close> is required by the schema.\<close>

definition insertBooking :: "env \<Rightarrow> booking \<Rightarrow> session \<Rightarrow> session option" where
  "insertBooking e b s =
     (if bookingWriteOk e \<and> vehicleNumber b \<noteq> []
         \<and> bid b \<notin> set (map bid (sessionBookings s))
         \<and> qrCode b \<notin> set (map qrCode (sessionBookings s))
      then Some (s\<lparr>s_bookings := s_bookings s @ [b]\<rparr>)
      else None)"

definition insertNotification :: "env \<Rightarrow> notification \<Rightarrow> session \<Rightarrow> session option" where
  "insertNotification e n s =
     (if notificationWriteOk e
      then Some (s\<lparr>s_notifications := s_notifications s @ [n]\<rparr>)
      else None)"

definition commitTransaction :: "env \<Rightarrow> session \<Rightarrow> world \<Rightarrow> world option" where
  "commitTransaction e s w =
     (if commitOk e
         \<and> set (map bid (s_bookings s)) \<inter> set (map bid (bookings w)) = {}
         \<and> set (map qrCode (s_bookings s)) \<inter> set (map qrCode (bookings w)) = {}
         \<and> set (map eid (s_events s)) \<inter> set (map eid (events w)) = {}
      then Some (w\<lparr>bookings := bookings w @ s_bookings s,
                    events := events w @ s_events s,
                    notifications := notifications w @ s_notifications s\<rparr>)
      else None)"

definition abortTransaction :: "session \<Rightarrow> world \<Rightarrow> world" where
  "abortTransaction s w = w"

subsection \<open>Booking creation: \<open>POST /api/bookings\<close>\<close>

text \<open>
  The body after \<open>bookingValidation\<close>: \<open>r_date\<close> is \<open>new Date(date)\<close>,
  \<open>r_dateText\<close> the text of the field, \<open>r_vehicleNumber\<close> is \<open>[]\<close> when the
  optional field is absent.
\<close>

record booking_req =
  r_userId :: nat
  r_zoneId :: nat
  r_zoneName :: string
  r_date :: int
  r_dateText :: string
  r_duration :: int
  r_vehicleNumber :: string

definition allowedZones :: "role \<Rightarrow> zone_type list" where
  "allowedZones r =
     (case r of
        Student \<Rightarrow> [StudentZone, GeneralZone]
      | Staff \<Rightarrow> [StaffZone, StudentZone, GeneralZone]
      | Visitor \<Rightarrow> [VisitorZone, GeneralZone]
      | Admin \<Rightarrow> [StudentZone, StaffZone, VisitorZone, GeneralZone, EventZone]
      | OtherRole \<Rightarrow> [GeneralZone])"

text \<open>
  \<open>Booking.findOne({ userId, zoneId, status: 'active', date: { $gte, $lte } })\<close>
\<close>

definition existingBooking :: "nat \<Rightarrow> nat \<Rightarrow> int \<Rightarrow> int \<Rightarrow> booking list \<Rightarrow> booking option" where
  "existingBooking u z lo hi bs =
     find (\<lambda>b. userId b = u \<and> zoneId b = z \<and> status b = Active \<and> lo \<le> date b \<and> date b \<le> hi) bs"

definition newBooking :: "env \<Rightarrow> booking_req \<Rightarrow> booking" where
  "newBooking e r =
     (let bookingDate = r_date r;
          startT = startOfDay bookingDate + 8 * msPerHour;
          endT = startT + r_duration r * msPerHour
      in \<lparr>bid = newId e, userId = r_userId r, zoneId = r_zoneId r, zoneName = r_zoneName r,
           qrCode = newQr e, date = bookingDate, startTime = Some startT, endTime = Some endT,
           duration = r_duration r, vehicleNumber = r_vehicleNumber r, status = Active,
           checkInTime = None, checkOutTime = None, violations = []\<rparr>)"

definition confirmation :: "booking_req \<Rightarrow> notification" where
  "confirmation r =
     \<lparr>n_userId = r_userId r, title = ''Booking Confirmed'',
      message = ''Your parking slot at '' @ r_zoneName r @ '' has been confirmed for ''
                @ r_dateText r,
      n_type = ''success''\<rparr>"

text \<open>
  The handler, given its session \<open>s0\<close> and the store \<open>w\<close> that its commit or
  abort meets. Every read and every write before the commit goes through the
  session. Every early return calls \<open>abortTransaction\<close>; an exception of a write
  or of the commit reaches the catch block, which aborts and answers 500. The
  two broadcasts follow the commit.
\<close>

definition createBookingIn :: "env \<Rightarrow> auth \<Rightarrow> booking_req \<Rightarrow> session \<Rightarrow> world \<Rightarrow> (failure + booking) \<times> world" where
  "createBookingIn e u r s0 w =
     (if uid u \<noteq> r_userId r then (Inl Unauthorized, abortTransaction s0 w)
      else case findZone (r_zoneId r) (sessionZones s0) of
        None \<Rightarrow> (Inl ZoneNotFound, abortTransaction s0 w)
      | Some zone \<Rightarrow>
          if ztype zone \<notin> set (allowedZones (urole u))
          then (Inl AccessDenied, abortTransaction s0 w)
          else
            let lo = startOfDay (r_date r); hi = endOfDay (r_date r) in
            if existingBooking (r_userId r) (r_zoneId r) lo hi (sessionBookings s0) \<noteq> None
            then (Inl DuplicateBooking, abortTransaction s0 w)
            else
              let activeBookings = countActive (r_zoneId r) lo hi (sessionBookings s0) in
              if activeBookings \<ge> totalSlots zone
              then (Inl NoSlotsAvailable, abortTransaction s0 w)
              else
                let b = newBooking e r in
                (case insertBooking e b s0 of
                   None \<Rightarrow> (Inl ServerError, abortTransaction s0 w)
                 | Some s1 \<Rightarrow>
                     (case insertNotification e (confirmation r) s1 of
                        None \<Rightarrow> (Inl ServerError, abortTransaction s1 w)
                      | Some s2 \<Rightarrow>
                          (case commitTransaction e s2 w of
                             None \<Rightarrow> (Inl ServerError, abortTransaction s2 w)
                           | Some w1 \<Rightarrow>
                               (let newAvailable = max 0 (totalSlots zone - (activeBookings + 1));
                                    w2 = broadcast (ZoneUpdate (r_zoneId r) newAvailable) w1;
                                    w3 = broadcast (BookingCreated (r_userId r) (r_zoneName r)) w2
                                in (Inr b, w3))))))"

text \<open>
  The handler run alone: it starts its session on the store, and no other
  writer touches the store before it commits or aborts.
\<close>

definition createBooking :: "env \<Rightarrow> auth \<Rightarrow> booking_req \<Rightarrow> world \<Rightarrow> (failure + booking) \<times> world" where
  "createBooking e u r w = createBookingIn e u r (startTransaction w) w"

subsection \<open>Cancellation: \<open>DELETE /api/bookings/:bookingId\<close>\<close>

definition cancelNotice :: "booking \<Rightarrow> notification" where
  "cancelNotice b =
     \<lparr>n_userId = userId b, title = ''Booking Cancelled'',
      message = ''Your parking slot at '' @ zoneName b @ '' has been cancelled'',
      n_type = ''warning''\<rparr>"

text \<open>
  No transaction here: the booking is saved and the notification created before
  \<open>getZoneAvailability\<close> is read; when the zone is gone, \<open>zoneData.available\<close>
  throws and the catch block answers 500 with both writes done.
\<close>

definition cancelBooking :: "int \<Rightarrow> auth \<Rightarrow> nat \<Rightarrow> world \<Rightarrow> (failure + unit) \<times> world" where
  "cancelBooking t u i w =
     (case findBooking i (bookings w) of
        None \<Rightarrow> (Inl BookingNotFound, w)
      | Some booking \<Rightarrow>
          if userId booking \<noteq> uid u \<and> urole u \<noteq> Admin then (Inl Unauthorized, w)
          else if status booking = Cancelled then (Inl AlreadyCancelled, w)
          else
            let b' = booking\<lparr>status := Cancelled\<rparr>;
                w1 = w\<lparr>bookings := saveBooking b' (bookings w)\<rparr>;
                w2 = createNotification (cancelNotice b') w1
            in (case getZoneAvailability t (zoneId booking) w2 of
                  None \<Rightarrow> (Inl ServerError, w2)
                | Some zoneData \<Rightarrow>
                    (let w3 = broadcast (ZoneUpdate (zoneId booking) (available zoneData)) w2;
                         w4 = broadcast (BookingCancelled (userId booking) (zoneName booking)) w3
                     in (Inr (), w4))))"

subsection \<open>Check-in and check-out\<close>

text \<open>\<open>Booking.findOne({ qrCode, status: 'active' })\<close>\<close>

definition findActiveByQr :: "string \<Rightarrow> booking list \<Rightarrow> booking option" where
  "findActiveByQr q bs = find (\<lambda>b. qrCode b = q \<and> status b = Active) bs"

definition checkInNotice :: "booking \<Rightarrow> notification" where
  "checkInNotice b =
     \<lparr>n_userId = userId b, title = ''Check-in Successful'',
      message = ''You have checked in at '' @ zoneName b, n_type = ''success''\<rparr>"

text \<open>
  \<open>POST /api/bookings/checkin\<close>. The QR code is a string; \<open>[]\<close> stands for a
  missing one. Only \<open>checkInTime\<close> is written.
\<close>

definition checkIn :: "int \<Rightarrow> string \<Rightarrow> world \<Rightarrow> (failure + booking) \<times> world" where
  "checkIn t q w =
     (if q = [] then (Inl QrRequired, w)
      else case findActiveByQr q (bookings w) of
        None \<Rightarrow> (Inl NotActive, w)
      | Some booking \<Rightarrow>
          if checkInTime booking \<noteq> None then (Inl AlreadyCheckedIn, w)
          else
            let b' = booking\<lparr>checkInTime := Some t\<rparr>;
                w1 = w\<lparr>bookings := saveBooking b' (bookings w)\<rparr>;
                w2 = createNotification (checkInNotice b') w1;
                w3 = broadcast (NotificationMsg (userId b') ''Check-in Successful''
                                  (''Checked in at '' @ zoneName b') ''success'') w2
            in (Inr b', w3))"

definition checkOutNotice :: "booking \<Rightarrow> notification" where
  "checkOutNotice b =
     \<lparr>n_userId = userId b, title = ''Check-out Successful'',
      message = ''You have checked out from '' @ zoneName b, n_type = ''success''\<rparr>"

text \<open>\<open>POST /api/bookings/checkout\<close>\<close>

definition checkOut :: "int \<Rightarrow> string \<Rightarrow> world \<Rightarrow> (failure + booking) \<times> world" where
  "checkOut t q w =
     (if q = [] then (Inl QrRequired, w)
      else case findActiveByQr q (bookings w) of
        None \<Rightarrow> (Inl NotActive, w)
      | Some booking \<Rightarrow>
          if checkInTime booking = None then (Inl CheckInRequired, w)
          else if checkOutTime booking \<noteq> None then (Inl AlreadyCheckedOut, w)
          else
            let b' = booking\<lparr>checkOutTime := Some t, status := Completed\<rparr>;
                w1 = w\<lparr>bookings := saveBooking b' (bookings w)\<rparr>;
                w2 = createNotification (checkOutNotice b') w1
            in (case getZoneAvailability t (zoneId booking) w2 of
                  None \<Rightarrow> (Inl ServerError, w2)
                | Some zoneData \<Rightarrow>
                    (let w3 = broadcast (ZoneUpdate (zoneId booking) (available zoneData)) w2;
                         w4 = broadcast (NotificationMsg (userId b') ''Check-out Successful''
                                           (''Checked out from '' @ zoneName booking) ''success'') w3
                     in (Inr b', w4))))"

subsection \<open>Zone update: \<open>PATCH /api/zones/:zoneId\<close>\<close>




subsection \<open>Zone deletion: \<open>DELETE /api/zones/:zoneId\<close>\<close>


subsection \<open>Event creation: \<open>POST /api/events\<close>\<close>

text \<open>
  \<open>allocatedSlots\<close> of the body: undefined, or what \<open>parseInt\<close> makes of it.
\<close>

datatype slots_field = SlotsMissing | SlotsNaN | SlotsNum int

text \<open>
  \<open>er_name = []\<close>, \<open>er_date = None\<close> and \<open>er_zoneId = None\<close> stand for
  missing fields.
\<close>

record event_req =
  er_name :: string
  er_date :: "int option"
  er_allocatedSlots :: slots_field
  er_zoneId :: "nat option"

definition insertEvent :: "env \<Rightarrow> event \<Rightarrow> session \<Rightarrow> session option" where
  "insertEvent e ev s =
     (if eventWriteOk e \<and> eid ev \<notin> set (map eid (sessionEvents s))
      then Some (s\<lparr>s_events := s_events s @ [ev]\<rparr>)
      else None)"

text \<open>
  The part of the handler after the zone check: save, commit, and, when a zone
  was given, the broadcast of its availability with the event allocations
  deducted, read from the store after the commit.
\<close>

definition saveEvent :: "env \<Rightarrow> event \<Rightarrow> zone option \<Rightarrow> session \<Rightarrow> world \<Rightarrow> (failure + event) \<times> world" where
  "saveEvent e ev zoneDoc s0 w =
     (case insertEvent e ev s0 of
        None \<Rightarrow> (Inl ServerError, abortTransaction s0 w)
      | Some s1 \<Rightarrow>
          (case commitTransaction e s1 w of
             None \<Rightarrow> (Inl ServerError, abortTransaction s1 w)
           | Some w1 \<Rightarrow>
               (case zoneDoc of
                  None \<Rightarrow> (Inr ev, w1)
                | Some zd \<Rightarrow>
                    (let activeBookings = countActiveFrom (zid zd) (now e) (bookings w1);
                         eventSlots = totalEventSlots (zid zd) (now e) (events w1);
                         newAvailable = max 0 (totalSlots zd - activeBookings - eventSlots)
                     in (Inr ev, broadcast (ZoneUpdate (zid zd) newAvailable) w1)))))"

text \<open>The handler, given its session and the store that its commit or abort meets.\<close>

definition createEventIn :: "env \<Rightarrow> auth \<Rightarrow> event_req \<Rightarrow> session \<Rightarrow> world \<Rightarrow> (failure + event) \<times> world" where
  "createEventIn e u r s0 w =
     (if urole u \<noteq> Admin then (Inl AdminRequired, abortTransaction s0 w)
      else case er_date r of
        None \<Rightarrow> (Inl FieldsRequired, abortTransaction s0 w)
      | Some d \<Rightarrow>
          if er_name r = [] \<or> er_allocatedSlots r = SlotsMissing
          then (Inl FieldsRequired, abortTransaction s0 w)
          else
            (case er_allocatedSlots r of
               SlotsNum n \<Rightarrow>
                 if n \<le> 0 then (Inl SlotsNotPositive, abortTransaction s0 w)
                 else
                   let ev = \<lparr>eid = newId e, ename = er_name r, edate = d, allocatedSlots = n,
                             ezoneId = er_zoneId r\<rparr>
                   in (case er_zoneId r of
                         None \<Rightarrow> saveEvent e ev None s0 w
                       | Some z \<Rightarrow>
                           (case findZone z (sessionZones s0) of
                              None \<Rightarrow> (Inl ZoneDoesNotExist, abortTransaction s0 w)
                            | Some zoneDoc \<Rightarrow>
                                (let activeBookings =
                                       countActiveFrom z (now e) (sessionBookings s0);
                                     currentAvailable = max 0 (totalSlots zoneDoc - activeBookings)
                                 in if currentAvailable < n
                                    then (Inl NotEnoughSlots, abortTransaction s0 w)
                                    else saveEvent e ev (Some zoneDoc) s0 w)))
             | _ \<Rightarrow> (Inl SlotsNotPositive, abortTransaction s0 w)))"

text \<open>The handler run alone.\<close>

definition createEvent :: "env \<Rightarrow> auth \<Rightarrow> event_req \<Rightarrow> world \<Rightarrow> (failure + event) \<times> world" where
  "createEvent e u r w = createEventIn e u r (startTransaction w) w"

subsection \<open>The expiry job: \<open>expireOldBookings\<close>\<close>


text \<open>The body of the loop up to \<open>booking.save()\<close>.\<close>

definition expire :: "int \<Rightarrow> booking \<Rightarrow> booking" where
  "expire t booking =
     (if checkInTime booking \<noteq> None \<and> checkOutTime booking = None
      then booking\<lparr>status := Expired,
                    violations := violations booking @
                      [\<lparr>v_type = NoCheckout,
                        description = ''User failed to check out before booking expired'',
                        timestamp = t\<rparr>]\<rparr>
      else if checkInTime booking = None
      then booking\<lparr>status := Expired,
                    violations := violations booking @
                      [\<lparr>v_type = UnauthorizedViolation,
                        description = ''User never checked in - no-show'',
                        timestamp = t\<rparr>]\<rparr>
      else booking\<lparr>status := Expired\<rparr>)"




subsection \<open>The capacity invariant of the specification\<close>

text \<open>
  For zone \<open>z\<close> and date \<open>d\<close>, seen at time \<open>t\<close>: the active bookings of the
  day of \<open>d\<close> plus the allocations of the zone's events dated today or later
  do not exceed \<open>totalSlots\<close>.
\<close>

definition withinCapacity :: "int \<Rightarrow> int \<Rightarrow> world \<Rightarrow> zone \<Rightarrow> bool" where
  "withinCapacity t d w z =
     (countActive (zid z) (startOfDay d) (endOfDay d) (bookings w)
        + totalEventSlots (zid z) (startOfDay t) (events w) \<le> totalSlots z)"

subsection \<open>Sample runs\<close>

text \<open>
  A campus with a one-slot zone and a two-slot zone, two students and an
  administrator, on 4 October 2024 at 10:00 UTC.
\<close>

definition day0 :: int where
  "day0 = 1728000000000"

definition now0 :: int where
  "now0 = day0 + 10 * msPerHour"

definition zoneA :: zone where
  "zoneA = \<lparr>zid = 1, zname = ''Lot A'', ztype = GeneralZone, totalSlots = 1\<rparr>"

definition zoneB :: zone where
  "zoneB = \<lparr>zid = 2, zname = ''Lot B'', ztype = StudentZone, totalSlots = 2\<rparr>"

definition world0 :: world where
  "world0 = \<lparr>zones = [zoneA, zoneB], bookings = [], events = [], notifications = [], sent = []\<rparr>"

definition student1 :: auth where
  "student1 = \<lparr>uid = 10, urole = Student\<rparr>"

definition student2 :: auth where
  "student2 = \<lparr>uid = 11, urole = Student\<rparr>"

definition admin1 :: auth where
  "admin1 = \<lparr>uid = 99, urole = Admin\<rparr>"

definition envWith :: "nat \<Rightarrow> string \<Rightarrow> env" where
  "envWith i q =
     \<lparr>now = now0, newId = i, newQr = q, bookingWriteOk = True, eventWriteOk = True,
      notificationWriteOk = True, commitOk = True\<rparr>"

definition reqFor :: "nat \<Rightarrow> zone \<Rightarrow> booking_req" where
  "reqFor u z =
     \<lparr>r_userId = u, r_zoneId = zid z, r_zoneName = zname z, r_date = day0,
      r_dateText = ''2024-10-04'', r_duration = 2, r_vehicleNumber = ''KA01AB1234''\<rparr>"

text \<open>Run 1: student 1 books the only slot of zone A.\<close>

definition worldFull :: world where
  "worldFull = snd (createBooking (envWith 100 ''QR-0000A001'') student1 (reqFor 10 zoneA) world0)"

text \<open>Run 2: the administrator allocates the slot of zone A to an event; then student 1 books.\<close>

definition eventReqA :: event_req where
  "eventReqA = \<lparr>er_name = ''Open day'', er_date = Some day0, er_allocatedSlots = SlotsNum 1,
                 er_zoneId = Some 1\<rparr>"

definition worldEvent :: world where
  "worldEvent = snd (createEvent (envWith 500 []) admin1 eventReqA world0)"

definition worldEventBooked :: world where
  "worldEventBooked =
     snd (createBooking (envWith 100 ''QR-0000A001'') student1 (reqFor 10 zoneA) worldEvent)"

text \<open>Run 3: after run 1, student 1 checks in at 10:00 and out at 11:00.\<close>

definition worldCheckedIn :: world where
  "worldCheckedIn = snd (checkIn now0 ''QR-0000A001'' worldFull)"

definition worldCompleted :: world where
  "worldCompleted = snd (checkOut (now0 + msPerHour) ''QR-0000A001'' worldCheckedIn)"














section \<open>Properties\<close>

subsection \<open>Booking creation\<close>

lemma createBookingIn_failure:
  "createBookingIn e u r s w = (Inl f, w') \<Longrightarrow> w' = w"
  by (auto simp: createBookingIn_def abortTransaction_def Let_def
           split: if_splits option.splits)

lemma createBookingIn_success:
  assumes "createBookingIn e u r s w = (Inr b, w')"
  shows "uid u = r_userId r"
    and "\<exists>zone. findZone (r_zoneId r) (sessionZones s) = Some zone
           \<and> ztype zone \<in> set (allowedZones (urole u))
           \<and> countActive (r_zoneId r) (startOfDay (r_date r)) (endOfDay (r_date r))
                (sessionBookings s) < totalSlots zone
           \<and> sent w' = sent w @
                [ZoneUpdate (r_zoneId r)
                   (max 0 (totalSlots zone -
                      (countActive (r_zoneId r) (startOfDay (r_date r)) (endOfDay (r_date r))
                         (sessionBookings s) + 1))),
                 BookingCreated (r_userId r) (r_zoneName r)]"
    and "existingBooking (r_userId r) (r_zoneId r) (startOfDay (r_date r)) (endOfDay (r_date r))
           (sessionBookings s) = None"
    and "b = newBooking e r"
    and "insertBooking e b s = Some (s\<lparr>s_bookings := s_bookings s @ [b]\<rparr>)"
    and "zones w' = zones w" and "events w' = events w @ s_events s"
    and "bookings w' = bookings w @ s_bookings s @ [b]"
    and "notifications w' = notifications w @ s_notifications s @ [confirmation r]"
  using assms
  by (auto simp: createBookingIn_def abortTransaction_def Let_def insertBooking_def
        insertNotification_def commitTransaction_def broadcast_def
      split: if_splits option.splits)

lemma createBooking_failure:
  "createBooking e u r w = (Inl f, w') \<Longrightarrow> w' = w"
  unfolding createBooking_def by (rule createBookingIn_failure)

lemma createBooking_success:
  assumes "createBooking e u r w = (Inr b, w')"
  shows "uid u = r_userId r"
    and "\<exists>zone. findZone (r_zoneId r) (zones w) = Some zone
           \<and> ztype zone \<in> set (allowedZones (urole u))
           \<and> countActive (r_zoneId r) (startOfDay (r_date r)) (endOfDay (r_date r)) (bookings w)
               < totalSlots zone
           \<and> sent w' = sent w @
                [ZoneUpdate (r_zoneId r)
                   (max 0 (totalSlots zone -
                      (countActive (r_zoneId r) (startOfDay (r_date r)) (endOfDay (r_date r))
                         (bookings w) + 1))),
                 BookingCreated (r_userId r) (r_zoneName r)]"
    and "existingBooking (r_userId r) (r_zoneId r) (startOfDay (r_date r)) (endOfDay (r_date r))
           (bookings w) = None"
    and "b = newBooking e r"
    and "bid b \<notin> bid ` set (bookings w)"
    and "qrCode b \<notin> qrCode ` set (bookings w)"
    and "zones w' = zones w" and "events w' = events w"
    and "bookings w' = bookings w @ [b]"
    and "notifications w' = notifications w @ [confirmation r]"
proof -
  from assms have ok: "createBookingIn e u r (startTransaction w) w = (Inr b, w')"
    by (simp add: createBooking_def)
  note s = createBookingIn_success [OF ok]
  have v: "sessionZones (startTransaction w) = zones w"
    "sessionBookings (startTransaction w) = bookings w"
    "s_bookings (startTransaction w) = []" "s_events (startTransaction w) = []"
    "s_notifications (startTransaction w) = []"
    by (simp_all add: sessionZones_def sessionBookings_def startTransaction_def)
  show "uid u = r_userId r" by (rule s(1))
  show "\<exists>zone. findZone (r_zoneId r) (zones w) = Some zone
           \<and> ztype zone \<in> set (allowedZones (urole u))
           \<and> countActive (r_zoneId r) (startOfDay (r_date r)) (endOfDay (r_date r)) (bookings w)
               < totalSlots zone
           \<and> sent w' = sent w @
                [ZoneUpdate (r_zoneId r)
                   (max 0 (totalSlots zone -
                      (countActive (r_zoneId r) (startOfDay (r_date r)) (endOfDay (r_date r))
                         (bookings w) + 1))),
                 BookingCreated (r_userId r) (r_zoneName r)]"
    using s(2) v by simp
  show "existingBooking (r_userId r) (r_zoneId r) (startOfDay (r_date r)) (endOfDay (r_date r))
           (bookings w) = None"
    using s(3) v by simp
  show "b = newBooking e r" by (rule s(4))
  from s(5) v show "bid b \<notin> bid ` set (bookings w)" and "qrCode b \<notin> qrCode ` set (bookings w)"
    by (auto simp: insertBooking_def split: if_splits)
  show "zones w' = zones w" by (rule s(6))
  show "events w' = events w" using s(7) v by simp
  show "bookings w' = bookings w @ [b]" using s(8) v by simp
  show "notifications w' = notifications w @ [confirmation r]" using s(9) v by simp
qed

text \<open>
  A committed booking keeps the active bookings of its zone and day within
  \<open>totalSlots\<close>.
\<close>

lemma createBooking_within_totalSlots:
  assumes "createBooking e u r w = (Inr b, w')"
    and "findZone (r_zoneId r) (zones w) = Some zone"
  shows "countActive (r_zoneId r) (startOfDay (r_date r)) (endOfDay (r_date r)) (bookings w')
           \<le> totalSlots zone"
proof -
  from createBooking_success(2) [OF assms(1)] assms(2)
  have "countActive (r_zoneId r) (startOfDay (r_date r)) (endOfDay (r_date r)) (bookings w)
          < totalSlots zone"
    by auto
  moreover from createBooking_success(9) [OF assms(1)]
  have "countActive (r_zoneId r) (startOfDay (r_date r)) (endOfDay (r_date r)) (bookings w')
          \<le> countActive (r_zoneId r) (startOfDay (r_date r)) (endOfDay (r_date r)) (bookings w) + 1"
    by (simp add: countActive_def)
  ultimately show ?thesis by linarith
qed

text \<open>
  C2. The handler takes its count from its session, the one its insert goes
  through. Whatever the store \<open>w\<close> holds when the handler commits or aborts:
  the answer is \<open>NoSlotsAvailable\<close> exactly when the request has reached the
  capacity check (caller is the booking's user, the zone is found in the session,
  the role may book it, the session shows no active booking of the user for the
  zone and day) and the number of bookings that the session shows for the zone
  with status \<open>active\<close> and a date within the requested day is at least
  \<open>totalSlots\<close>; the store is then left as it is. A booking is returned only
  when that number is below \<open>totalSlots\<close>; it has been inserted through the same
  session, and the commit appends the session's inserts to the store. Run alone,
  the handler starts the session on the store itself.
\<close>

theorem createBookingIn_no_slots_iff:
  "((fst (createBookingIn e u r s w) = Inl NoSlotsAvailable) =
     (uid u = r_userId r \<and>
      (\<exists>zone. findZone (r_zoneId r) (zones (snapshot s)) = Some zone
         \<and> ztype zone \<in> set (allowedZones (urole u))
         \<and> (\<forall>b\<in>set (bookings (snapshot s) @ s_bookings s).
               \<not> (userId b = r_userId r \<and> zoneId b = r_zoneId r \<and> status b = Active
                    \<and> startOfDay (r_date r) \<le> date b \<and> date b \<le> endOfDay (r_date r)))
         \<and> totalSlots zone
              \<le> int (length (filter
                    (\<lambda>b. zoneId b = r_zoneId r \<and> status b = Active
                          \<and> startOfDay (r_date r) \<le> date b \<and> date b \<le> endOfDay (r_date r))
                    (bookings (snapshot s) @ s_bookings s))))))
   \<and> (fst (createBookingIn e u r s w) = Inl NoSlotsAvailable \<longrightarrow>
        snd (createBookingIn e u r s w) = w)
   \<and> (\<forall>b. fst (createBookingIn e u r s w) = Inr b \<longrightarrow>
          (\<exists>zone. findZone (r_zoneId r) (zones (snapshot s)) = Some zone
             \<and> int (length (filter
                    (\<lambda>b. zoneId b = r_zoneId r \<and> status b = Active
                          \<and> startOfDay (r_date r) \<le> date b \<and> date b \<le> endOfDay (r_date r))
                    (bookings (snapshot s) @ s_bookings s))) < totalSlots zone)
          \<and> insertBooking e b s = Some (s\<lparr>s_bookings := s_bookings s @ [b]\<rparr>)
          \<and> bookings (snd (createBookingIn e u r s w)) = bookings w @ s_bookings s @ [b])
   \<and> createBooking e u r w = createBookingIn e u r (startTransaction w) w
   \<and> snapshot (startTransaction w) = w \<and> s_bookings (startTransaction w) = []"
proof (intro conjI allI impI)
  show "(fst (createBookingIn e u r s w) = Inl NoSlotsAvailable) =
     (uid u = r_userId r \<and>
      (\<exists>zone. findZone (r_zoneId r) (zones (snapshot s)) = Some zone
         \<and> ztype zone \<in> set (allowedZones (urole u))
         \<and> (\<forall>b\<in>set (bookings (snapshot s) @ s_bookings s).
               \<not> (userId b = r_userId r \<and> zoneId b = r_zoneId r \<and> status b = Active
                    \<and> startOfDay (r_date r) \<le> date b \<and> date b \<le> endOfDay (r_date r)))
         \<and> totalSlots zone
              \<le> int (length (filter
                    (\<lambda>b. zoneId b = r_zoneId r \<and> status b = Active
                          \<and> startOfDay (r_date r) \<le> date b \<and> date b \<le> endOfDay (r_date r))
                    (bookings (snapshot s) @ s_bookings s)))))"
    by (auto simp: createBookingIn_def abortTransaction_def Let_def existingBooking_def
                   countActive_def find_None_iff sessionBookings_def sessionZones_def
             split: if_splits option.splits)
next
  assume "fst (createBookingIn e u r s w) = Inl NoSlotsAvailable"
  then have "createBookingIn e u r s w = (Inl NoSlotsAvailable, snd (createBookingIn e u r s w))"
    by (metis prod.collapse)
  then show "snd (createBookingIn e u r s w) = w"
    by (rule createBookingIn_failure)
next
  fix b
  assume "fst (createBookingIn e u r s w) = Inr b"
  then have ok: "createBookingIn e u r s w = (Inr b, snd (createBookingIn e u r s w))"
    by (metis prod.collapse)
  from createBookingIn_success(2) [OF ok]
  show "\<exists>zone. findZone (r_zoneId r) (zones (snapshot s)) = Some zone
             \<and> int (length (filter
                    (\<lambda>b. zoneId b = r_zoneId r \<and> status b = Active
                          \<and> startOfDay (r_date r) \<le> date b \<and> date b \<le> endOfDay (r_date r))
                    (bookings (snapshot s) @ s_bookings s))) < totalSlots zone"
    by (auto simp: countActive_def sessionBookings_def sessionZones_def)
  from createBookingIn_success(5) [OF ok]
  show "insertBooking e b s = Some (s\<lparr>s_bookings := s_bookings s @ [b]\<rparr>)" .
  from createBookingIn_success(8) [OF ok]
  show "bookings (snd (createBookingIn e u r s w)) = bookings w @ s_bookings s @ [b]" .
next
  show "createBooking e u r w = createBookingIn e u r (startTransaction w) w"
    by (simp add: createBooking_def)
  show "snapshot (startTransaction w) = w" and "s_bookings (startTransaction w) = []"
    by (simp_all add: startTransaction_def)
qed

theorem createBookingIn_no_slots_iff_witness:
  "createBooking (envWith 101 ''QR-0000A002'') student2 (reqFor 11 zoneA) worldFull
     = (Inl NoSlotsAvailable, worldFull)
   \<and> createBookingIn (envWith 101 ''QR-0000A002'') student2 (reqFor 11 zoneA)
       (startTransaction worldFull) world0 = (Inl NoSlotsAvailable, world0)
   \<and> bookings worldFull
       = bookings world0 @ [newBooking (envWith 100 ''QR-0000A001'') (reqFor 10 zoneA)]"
proof -
  let ?e = "envWith 101 ''QR-0000A002''" and ?r = "reqFor 11 zoneA"
  let ?s = "startTransaction worldFull"
  have z: "findZone (r_zoneId ?r) (zones (snapshot ?s)) = Some zoneA" by code_simp
  have rest: "uid student2 = r_userId ?r"
    "ztype zoneA \<in> set (allowedZones (urole student2))"
    "\<forall>b\<in>set (bookings (snapshot ?s) @ s_bookings ?s).
        \<not> (userId b = r_userId ?r \<and> zoneId b = r_zoneId ?r \<and> status b = Active
             \<and> startOfDay (r_date ?r) \<le> date b \<and> date b \<le> endOfDay (r_date ?r))"
    "totalSlots zoneA
       \<le> int (length (filter
             (\<lambda>b. zoneId b = r_zoneId ?r \<and> status b = Active
                   \<and> startOfDay (r_date ?r) \<le> date b \<and> date b \<le> endOfDay (r_date ?r))
             (bookings (snapshot ?s) @ s_bookings ?s)))"
    by code_simp+
  have full: "createBookingIn ?e student2 ?r ?s w = (Inl NoSlotsAvailable, w)" for w
  proof -
    note thm2 = createBookingIn_no_slots_iff [of ?e student2 ?r ?s w]
    from thm2 z rest have f: "fst (createBookingIn ?e student2 ?r ?s w) = Inl NoSlotsAvailable"
      by blast
    with thm2 have "snd (createBookingIn ?e student2 ?r ?s w) = w"
      by blast
    with f show ?thesis by (metis prod.collapse)
  qed
  have first: "createBooking ?e student2 ?r worldFull = (Inl NoSlotsAvailable, worldFull)"
    using full [of worldFull] by (simp add: createBooking_def)
  let ?e1 = "envWith 100 ''QR-0000A001''" and ?r1 = "reqFor 10 zoneA"
  have ok: "fst (createBookingIn ?e1 student1 ?r1 (startTransaction world0) world0)
              = Inr (newBooking ?e1 ?r1)"
    by code_simp
  from createBookingIn_no_slots_iff [of ?e1 student1 ?r1 "startTransaction world0" world0] ok
  have "bookings (snd (createBookingIn ?e1 student1 ?r1 (startTransaction world0) world0))
          = bookings world0 @ s_bookings (startTransaction world0) @ [newBooking ?e1 ?r1]"
    by blast
  then have third: "bookings worldFull = bookings world0 @ [newBooking ?e1 ?r1]"
    by (simp add: worldFull_def createBooking_def startTransaction_def)
  from first full [of world0] third show ?thesis by blast
qed

text \<open>
  C3. A booking request that fails, for whatever reason (an early return, a
  failed write of the booking or of the notification, a failed commit), leaves
  the world as it was: no booking, no notification, no broadcast. A request that
  succeeds persists the booking together with its confirmation notification and
  emits \<open>zone_update\<close> and \<open>booking_created\<close>. So the booking is stored exactly
  when the notification is, and a broadcast is emitted only with a stored booking.
\<close>

theorem createBooking_atomic:
  "(\<forall>f. fst (createBooking e u r w) = Inl f \<longrightarrow> snd (createBooking e u r w) = w)
   \<and> (\<forall>b. fst (createBooking e u r w) = Inr b \<longrightarrow>
          bookings (snd (createBooking e u r w)) = bookings w @ [b]
        \<and> notifications (snd (createBooking e u r w)) = notifications w @ [confirmation r]
        \<and> (\<exists>a. sent (snd (createBooking e u r w))
                 = sent w @ [ZoneUpdate (r_zoneId r) a,
                             BookingCreated (r_userId r) (r_zoneName r)]))
   \<and> ((bookings (snd (createBooking e u r w)) = bookings w)
        = (notifications (snd (createBooking e u r w)) = notifications w))
   \<and> (sent (snd (createBooking e u r w)) \<noteq> sent w \<longrightarrow>
        bookings (snd (createBooking e u r w)) \<noteq> bookings w)"
proof (cases "fst (createBooking e u r w)")
  case (Inl f)
  then have "createBooking e u r w = (Inl f, snd (createBooking e u r w))"
    by (metis prod.collapse)
  then have "snd (createBooking e u r w) = w"
    by (rule createBooking_failure)
  with Inl show ?thesis by simp
next
  case (Inr b)
  then have ok: "createBooking e u r w = (Inr b, snd (createBooking e u r w))"
    by (metis prod.collapse)
  note s = createBooking_success [OF ok]
  from s(2) have "\<exists>a. sent (snd (createBooking e u r w))
                 = sent w @ [ZoneUpdate (r_zoneId r) a,
                             BookingCreated (r_userId r) (r_zoneName r)]"
    by blast
  with Inr s(9) s(10) show ?thesis by auto
qed

theorem createBooking_atomic_witness:
  "createBooking ((envWith 100 ''QR-0000A001'')\<lparr>notificationWriteOk := False\<rparr>) student1
       (reqFor 10 zoneA) world0 = (Inl ServerError, world0)
   \<and> insertBooking ((envWith 100 ''QR-0000A001'')\<lparr>notificationWriteOk := False\<rparr>)
       (newBooking (envWith 100 ''QR-0000A001'') (reqFor 10 zoneA)) (startTransaction world0)
       \<noteq> None"
proof -
  let ?e = "(envWith 100 ''QR-0000A001'')\<lparr>notificationWriteOk := False\<rparr>"
  have f: "fst (createBooking ?e student1 (reqFor 10 zoneA) world0) = Inl ServerError"
    by code_simp
  with createBooking_atomic [of ?e student1 "reqFor 10 zoneA" world0]
  have "snd (createBooking ?e student1 (reqFor 10 zoneA) world0) = world0"
    by blast
  with f have "createBooking ?e student1 (reqFor 10 zoneA) world0 = (Inl ServerError, world0)"
    by (metis prod.collapse)
  moreover have "insertBooking ?e (newBooking (envWith 100 ''QR-0000A001'') (reqFor 10 zoneA))
       (startTransaction world0) \<noteq> None"
    by code_simp
  ultimately show ?thesis by blast
qed

text \<open>
  C10. A booking request whose \<open>userId\<close> is not the caller's id is answered with
  the authorization failure and writes nothing: bookings, notifications and the
  broadcast log are unchanged.
\<close>

theorem createBooking_foreign_user:
  "uid u \<noteq> r_userId r \<Longrightarrow> createBooking e u r w = (Inl Unauthorized, w)"
  by (simp add: createBooking_def createBookingIn_def abortTransaction_def)

theorem createBooking_foreign_user_witness:
  "uid student2 \<noteq> r_userId (reqFor 10 zoneA)
   \<and> createBooking (envWith 101 ''QR-0000A002'') student2 (reqFor 10 zoneA) world0
       = (Inl Unauthorized, world0)"
proof -
  have h: "uid student2 \<noteq> r_userId (reqFor 10 zoneA)"
    by (simp add: student2_def reqFor_def)
  from h createBooking_foreign_user [OF h] show ?thesis by blast
qed

subsection \<open>Days, counts and lookups\<close>

lemma startOfDay_le: "startOfDay t \<le> t"
  by (simp add: startOfDay_def msPerDay_def)

lemma le_endOfDay: "t \<le> endOfDay t"
proof -
  have "t mod msPerDay < msPerDay" by (simp add: msPerDay_def)
  then show ?thesis by (simp add: endOfDay_def startOfDay_def)
qed

lemma endOfDay_cong: "startOfDay d = startOfDay d' \<Longrightarrow> endOfDay d = endOfDay d'"
  by (simp add: endOfDay_def)

lemma countActive_append:
  "countActive z lo hi (xs @ ys) = countActive z lo hi xs + countActive z lo hi ys"
  by (simp add: countActive_def)

lemma countActive_single:
  "countActive z lo hi [b] =
     (if zoneId b = z \<and> status b = Active \<and> lo \<le> date b \<and> date b \<le> hi then 1 else 0)"
  by (simp add: countActive_def)

lemma findBooking_append_fresh:
  "i \<notin> bid ` set xs \<Longrightarrow> findBooking i (xs @ [b]) = (if bid b = i then Some b else None)"
  by (induction xs) (auto simp: findBooking_def)

lemma saveBooking_append_fresh:
  "bid b' \<notin> bid ` set xs \<Longrightarrow>
     saveBooking b' (xs @ [b]) = xs @ [if bid b = bid b' then b' else b]"
  by (induction xs) (auto simp: saveBooking_def)

lemma find_SomeD: "find P xs = Some y \<Longrightarrow> y \<in> set xs \<and> P y"
  by (induction xs) (auto split: if_splits)

lemma getZoneAvailability_eq_None: "(getZoneAvailability t z w = None) = (findZone z (zones w) = None)"
  by (simp add: getZoneAvailability_def Let_def split: option.splits)

subsection \<open>Availability around a booking\<close>

text \<open>
  The availability endpoint, which counts the active bookings of the queried day
  and deducts no events: for the zone and any date of the day of a successful
  booking it shows one less after the booking than before, and the owner's
  cancellation of that booking succeeds and brings it back; the zone list of
  \<open>GET /api/zones\<close> is then also what it was before the booking.
\<close>

lemma reserve_cancel_round_trip:
  assumes ok: "createBooking e u r w = (Inr b, w1)"
    and day: "startOfDay d = startOfDay (r_date r)"
  shows "\<exists>a k. zoneAvailability (r_zoneId r) (Some d) w = Inr (a, k)
           \<and> zoneAvailability (r_zoneId r) (Some d) w1 = Inr (a - 1, k + 1)
           \<and> (\<exists>w2. cancelBooking t u (bid b) w1 = (Inr (), w2)
                 \<and> zoneAvailability (r_zoneId r) (Some d) w2 = Inr (a, k)
                 \<and> getZones t' w2 = getZones t' w)"
proof -
  note s = createBooking_success [OF ok]
  let ?z = "r_zoneId r"
  let ?lo = "startOfDay d" and ?hi = "endOfDay d"
  let ?k = "countActive ?z ?lo ?hi (bookings w)"
  from day have hi: "endOfDay d = endOfDay (r_date r)" by (rule endOfDay_cong)
  from s(2) day hi obtain zone where
    zone: "findZone ?z (zones w) = Some zone" and free: "?k < totalSlots zone"
    by auto
  have b: "zoneId b = ?z" "status b = Active" "date b = r_date r" "userId b = uid u"
    using s(1) s(4) by (simp_all add: newBooking_def Let_def)
  have inday: "?lo \<le> date b" "date b \<le> ?hi"
    using b(3) day hi startOfDay_le [of "r_date r"] le_endOfDay [of "r_date r"] by simp_all
  have before: "zoneAvailability ?z (Some d) w = Inr (totalSlots zone - ?k, ?k)"
    using zone free by (simp add: zoneAvailability_def Let_def)
  have count1: "countActive ?z ?lo ?hi (bookings w1) = ?k + 1"
    using s(9) b inday by (simp add: countActive_append countActive_single)
  have after: "zoneAvailability ?z (Some d) w1 = Inr (totalSlots zone - ?k - 1, ?k + 1)"
    using zone free s(7) count1 by (simp add: zoneAvailability_def Let_def)
  let ?c = "b\<lparr>status := Cancelled\<rparr>"
  have found: "findBooking (bid b) (bookings w1) = Some b"
    using s(5) s(9) by (simp add: findBooking_append_fresh)
  have saved: "saveBooking ?c (bookings w1) = bookings w @ [?c]"
    using s(5) s(9) by (simp add: saveBooking_append_fresh)
  obtain zd where zd: "getZoneAvailability t (zoneId b)
       (createNotification (cancelNotice ?c) (w1\<lparr>bookings := saveBooking ?c (bookings w1)\<rparr>))
       = Some zd"
    using zone b(1) s(7) getZoneAvailability_eq_None [of t "zoneId b"
       "createNotification (cancelNotice ?c) (w1\<lparr>bookings := saveBooking ?c (bookings w1)\<rparr>)"]
    by (auto simp: createNotification_def)
  let ?w5 = "broadcast (BookingCancelled (userId b) (zoneName b))
              (broadcast (ZoneUpdate (zoneId b) (available zd))
                (createNotification (cancelNotice ?c)
                   (w1\<lparr>bookings := saveBooking ?c (bookings w1)\<rparr>)))"
  have cancel: "cancelBooking t u (bid b) w1 = (Inr (), ?w5)"
    using found b zd by (simp add: cancelBooking_def Let_def)
  have bk5: "bookings ?w5 = bookings w @ [?c]" and z5: "zones ?w5 = zones w"
    using saved s(7) by (simp_all add: broadcast_def createNotification_def)
  have count2: "countActive ?z ?lo ?hi (bookings ?w5) = ?k"
    using bk5 by (simp add: countActive_append countActive_single)
  have restored: "zoneAvailability ?z (Some d) ?w5 = Inr (totalSlots zone - ?k, ?k)"
    using zone free z5 count2 by (simp add: zoneAvailability_def Let_def)
  have ev5: "events ?w5 = events w"
    using s(8) by (simp add: broadcast_def createNotification_def)
  have "countActive z' lo hi (bookings ?w5) = countActive z' lo hi (bookings w)" for z' lo hi
    using bk5 by (simp add: countActive_append countActive_single)
  then have list: "getZones t' ?w5 = getZones t' w"
    using z5 ev5 by (simp add: getZones_def zoneWithAvailability_def)
  from before after cancel restored list show ?thesis by blast
qed

text \<open>
  The zone list of \<open>GET /api/zones\<close>, which deducts the event allocations: a
  successful booking dated today lowers the availability of its zone by exactly
  1 whenever the list showed a positive availability before.
\<close>

lemma findZone_Some: "findZone i zs = Some z \<Longrightarrow> zid z = i \<and> z \<in> set zs"
  by (auto simp: findZone_def dest: find_SomeD)

lemma reserve_zone_list:
  assumes ok: "createBooking e u r w = (Inr b, w1)"
    and today: "startOfDay t \<le> r_date r" "r_date r \<le> endOfDay t"
    and zone: "findZone (r_zoneId r) (zones w) = Some zone"
    and pos: "0 < available (zoneWithAvailability t w zone)"
  shows "available (zoneWithAvailability t w1 zone) = available (zoneWithAvailability t w zone) - 1"
proof -
  note s = createBooking_success [OF ok]
  from findZone_Some [OF zone] have z: "zid zone = r_zoneId r" by simp
  have b: "zoneId b = r_zoneId r" "status b = Active" "date b = r_date r"
    using s(4) by (simp_all add: newBooking_def Let_def)
  have "countActive (zid zone) (startOfDay t) (endOfDay t) (bookings w1)
          = countActive (zid zone) (startOfDay t) (endOfDay t) (bookings w) + 1"
    using s(9) b z today by (simp add: countActive_append countActive_single)
  with pos s(8) show ?thesis
    by (simp add: zoneWithAvailability_def Let_def split: if_splits)
qed

text \<open>
  C4. On the zone list a successful booking need not lower the availability.
  After the administrator has allocated the only slot of zone A to an event of
  4 October, the list shows 0 available for zone A; student 1 still books the
  zone for that day, because the capacity check of the booking handler does not
  read the events, and the list shows 0 again, not one less.
\<close>

theorem zone_list_unchanged_by_reserve:
  "fst (createEvent (envWith 500 []) admin1 eventReqA world0)
     = Inr \<lparr>eid = 500, ename = ''Open day'', edate = day0, allocatedSlots = 1, ezoneId = Some 1\<rparr>
   \<and> fst (createBooking (envWith 100 ''QR-0000A001'') student1 (reqFor 10 zoneA) worldEvent)
       = Inr (newBooking (envWith 100 ''QR-0000A001'') (reqFor 10 zoneA))
   \<and> available (zoneWithAvailability now0 worldEvent zoneA) = 0
   \<and> available (zoneWithAvailability now0 worldEventBooked zoneA) = 0
   \<and> available (zoneWithAvailability now0 worldEventBooked zoneA)
       \<noteq> available (zoneWithAvailability now0 worldEvent zoneA) - 1"
  by code_simp

text \<open>
  C1. Active bookings plus event allocations can exceed \<open>totalSlots\<close> after a
  committed booking. In the one-slot zone A the invariant holds at the start and
  after the administrator has allocated the slot to an event of 4 October; the
  booking of student 1 for that day is then accepted, because the capacity check
  of the booking handler does not read the events, and leaves one active booking
  plus one allocated slot in a zone of one slot.
\<close>

theorem booking_exceeds_event_allocation:
  "withinCapacity now0 day0 world0 zoneA
   \<and> fst (createEvent (envWith 500 []) admin1 eventReqA world0)
       = Inr \<lparr>eid = 500, ename = ''Open day'', edate = day0, allocatedSlots = 1, ezoneId = Some 1\<rparr>
   \<and> withinCapacity now0 day0 worldEvent zoneA
   \<and> fst (createBooking (envWith 100 ''QR-0000A001'') student1 (reqFor 10 zoneA) worldEvent)
       = Inr (newBooking (envWith 100 ''QR-0000A001'') (reqFor 10 zoneA))
   \<and> countActive 1 (startOfDay day0) (endOfDay day0) (bookings worldEventBooked) = 1
   \<and> totalEventSlots 1 (startOfDay now0) (events worldEventBooked) = 1
   \<and> \<not> withinCapacity now0 day0 worldEventBooked zoneA"
  by code_simp

text \<open>
  C8. With one slot allocated to an event and no booking in the one-slot zone A,
  the zone list reports 0 available, as the formula with the event deduction
  says, while \<open>getZoneAvailability\<close> (the source of the \<open>zone_update\<close>
  broadcasts) and the availability endpoint report 1.
\<close>

theorem availability_paths_disagree:
  "available (zoneWithAvailability now0 worldEvent zoneA) = 0
   \<and> map_option available (getZoneAvailability now0 1 worldEvent) = Some 1
   \<and> zoneAvailability 1 (Some day0) worldEvent = Inr (1, 0)"
  by code_simp

text \<open>All three computations are clamped at 0.\<close>

lemma availability_nonnegative:
  "0 \<le> available (zoneWithAvailability t w z)"
  "getZoneAvailability t i w = Some zd \<Longrightarrow> 0 \<le> available zd"
  "zoneAvailability i d w = Inr (a, k) \<Longrightarrow> 0 \<le> a"
  by (auto simp: zoneWithAvailability_def getZoneAvailability_def zoneAvailability_def Let_def
           split: option.splits)

subsection \<open>Saving a loaded booking\<close>

lemma findBooking_saveBooking:
  "x \<in> set bs \<Longrightarrow> bid x = bid b \<Longrightarrow> findBooking (bid b) (saveBooking b bs) = Some b"
  by (induction bs) (auto simp: findBooking_def saveBooking_def)

lemma findActiveByQr_Some:
  "findActiveByQr q bs = Some b \<Longrightarrow> b \<in> set bs \<and> qrCode b = q \<and> status b = Active"
  by (auto simp: findActiveByQr_def find_Some_iff)

lemma findActiveByQr_None:
  "(findActiveByQr q bs = None) = (\<forall>b\<in>set bs. qrCode b = q \<longrightarrow> status b \<noteq> Active)"
  by (auto simp: findActiveByQr_def find_None_iff)

lemma countActive_saveBooking:
  "distinct (map bid bs) \<Longrightarrow> old \<in> set bs \<Longrightarrow> bid b = bid old \<Longrightarrow>
     countActive z lo hi (saveBooking b bs)
       = countActive z lo hi bs - countActive z lo hi [old] + countActive z lo hi [b]"
proof (induction bs)
  case Nil
  then show ?case by simp
next
  case (Cons x xs)
  show ?case
  proof (cases "x = old")
    case True
    from Cons.prems True have "bid b \<notin> bid ` set xs" by simp
    then have "\<forall>y\<in>set xs. bid y \<noteq> bid b" by (metis imageI)
    then have "saveBooking b xs = xs"
      by (induction xs) (auto simp: saveBooking_def)
    then have "saveBooking b (x # xs) = b # xs"
      using True Cons.prems(3) by (simp add: saveBooking_def)
    then show ?thesis
      using True by (simp add: countActive_def)
  next
    case False
    with Cons.prems have old: "old \<in> set xs" and d: "distinct (map bid xs)"
      and ne: "bid x \<noteq> bid b" by auto
    have "saveBooking b (x # xs) = x # saveBooking b xs"
      using ne by (simp add: saveBooking_def)
    then show ?thesis
      using Cons.IH [OF d old Cons.prems(3)] by (simp add: countActive_def)
  qed
qed

subsection \<open>Cancellation\<close>

text \<open>
  C5. The cancel handler rejects only the status \<open>cancelled\<close>. After student 1
  has booked, checked in and checked out, the booking is \<open>completed\<close>; the
  cancellation of it is answered with success, rewrites the status to
  \<open>cancelled\<close>, creates a "Booking Cancelled" notification and broadcasts
  \<open>zone_update\<close> and \<open>booking_cancelled\<close>.
\<close>

theorem cancel_of_completed_booking_succeeds:
  "map status (bookings worldCompleted) = [Completed]
   \<and> fst (cancelBooking (now0 + 2 * msPerHour) student1 100 worldCompleted) = Inr ()
   \<and> map status (bookings (snd (cancelBooking (now0 + 2 * msPerHour) student1 100 worldCompleted)))
       = [Cancelled]
   \<and> map title (notifications (snd (cancelBooking (now0 + 2 * msPerHour) student1 100 worldCompleted)))
       = map title (notifications worldCompleted) @ [''Booking Cancelled'']
   \<and> sent (snd (cancelBooking (now0 + 2 * msPerHour) student1 100 worldCompleted))
       = sent worldCompleted @ [ZoneUpdate 1 1, BookingCancelled 10 ''Lot A'']"
  by code_simp

text \<open>An already cancelled booking is rejected, and nothing is written.\<close>

lemma cancel_of_cancelled_booking:
  "findBooking i (bookings w) = Some b \<Longrightarrow> status b = Cancelled \<Longrightarrow>
     userId b = uid u \<or> urole u = Admin \<Longrightarrow>
     cancelBooking t u i w = (Inl AlreadyCancelled, w)"
  by (auto simp: cancelBooking_def)

subsection \<open>Check-in\<close>

text \<open>
  C6 (as amended). A check-in succeeds only on a stored booking with the given
  QR code whose status is \<open>active\<close> and which has no \<open>checkInTime\<close> yet; when no
  booking with that QR code is active it fails and writes nothing. On success
  \<open>checkInTime\<close> is set to the current time, the booking is stored, and its
  status is still \<open>active\<close>.
\<close>

theorem checkIn_active_only:
  "(\<forall>b. fst (checkIn t q w) = Inr b \<longrightarrow>
       (\<exists>old\<in>set (bookings w). qrCode old = q \<and> status old = Active
            \<and> checkInTime old = None \<and> b = old\<lparr>checkInTime := Some t\<rparr>)
       \<and> status b = Active \<and> checkInTime b = Some t
       \<and> findBooking (bid b) (bookings (snd (checkIn t q w))) = Some b)
   \<and> ((\<forall>b\<in>set (bookings w). qrCode b = q \<longrightarrow> status b \<noteq> Active) \<longrightarrow>
        fst (checkIn t q w) = Inl (if q = [] then QrRequired else NotActive)
        \<and> snd (checkIn t q w) = w)"
proof (intro conjI allI impI)
  fix b
  assume ok: "fst (checkIn t q w) = Inr b"
  then obtain old where old: "findActiveByQr q (bookings w) = Some old"
    and none: "checkInTime old = None" and b: "b = old\<lparr>checkInTime := Some t\<rparr>"
    and w': "bookings (snd (checkIn t q w)) = saveBooking b (bookings w)"
    by (auto simp: checkIn_def Let_def broadcast_def createNotification_def
             split: if_splits option.splits)
  from findActiveByQr_Some [OF old] none b
  show "\<exists>old\<in>set (bookings w). qrCode old = q \<and> status old = Active
            \<and> checkInTime old = None \<and> b = old\<lparr>checkInTime := Some t\<rparr>"
    by blast
  from findActiveByQr_Some [OF old] b show "status b = Active" by simp
  from b show "checkInTime b = Some t" by simp
  have "old \<in> set (bookings w)" and "bid old = bid b"
    using findActiveByQr_Some [OF old] b by simp_all
  then have "findBooking (bid b) (saveBooking b (bookings w)) = Some b"
    by (rule findBooking_saveBooking)
  with w' show "findBooking (bid b) (bookings (snd (checkIn t q w))) = Some b"
    by simp
next
  assume "\<forall>b\<in>set (bookings w). qrCode b = q \<longrightarrow> status b \<noteq> Active"
  then have "findActiveByQr q (bookings w) = None"
    by (simp add: findActiveByQr_None)
  then show "fst (checkIn t q w) = Inl (if q = [] then QrRequired else NotActive)"
    and "snd (checkIn t q w) = w"
    by (simp_all add: checkIn_def)
qed

theorem checkIn_active_only_witness:
  "fst (checkIn now0 ''QR-0000A001'' worldFull)
     = Inr ((newBooking (envWith 100 ''QR-0000A001'') (reqFor 10 zoneA))\<lparr>checkInTime := Some now0\<rparr>)
   \<and> findBooking 100 (bookings worldCheckedIn)
       = Some ((newBooking (envWith 100 ''QR-0000A001'') (reqFor 10 zoneA))\<lparr>checkInTime := Some now0\<rparr>)
   \<and> checkIn (now0 + msPerHour) ''QR-0000A001'' worldCompleted = (Inl NotActive, worldCompleted)"
proof -
  let ?b = "(newBooking (envWith 100 ''QR-0000A001'') (reqFor 10 zoneA))\<lparr>checkInTime := Some now0\<rparr>"
  have ok: "fst (checkIn now0 ''QR-0000A001'' worldFull) = Inr ?b"
    by code_simp
  have i: "bid ?b = 100" by code_simp
  from checkIn_active_only [of now0 "''QR-0000A001''" worldFull] ok i
  have stored: "findBooking 100 (bookings worldCheckedIn) = Some ?b"
    unfolding worldCheckedIn_def by auto
  have "\<forall>b\<in>set (bookings worldCompleted). qrCode b = ''QR-0000A001'' \<longrightarrow> status b \<noteq> Active"
    by code_simp
  with checkIn_active_only [of "now0 + msPerHour" "''QR-0000A001''" worldCompleted]
  have "fst (checkIn (now0 + msPerHour) ''QR-0000A001'' worldCompleted) = Inl NotActive"
    and "snd (checkIn (now0 + msPerHour) ''QR-0000A001'' worldCompleted) = worldCompleted"
    by simp_all
  then have "checkIn (now0 + msPerHour) ''QR-0000A001'' worldCompleted
               = (Inl NotActive, worldCompleted)"
    by (metis prod.collapse)
  with ok stored show ?thesis by blast
qed

text \<open>
  C6 (as stated) fails: after the check-in of the active booking of student 1 the
  status of the booking is \<open>active\<close>, not \<open>checked-in\<close>.
\<close>

theorem checkIn_status_counterexample:
  "fst (checkIn now0 ''QR-0000A001'' worldFull)
     = Inr ((newBooking (envWith 100 ''QR-0000A001'') (reqFor 10 zoneA))\<lparr>checkInTime := Some now0\<rparr>)
   \<and> status ((newBooking (envWith 100 ''QR-0000A001'') (reqFor 10 zoneA))\<lparr>checkInTime := Some now0\<rparr>)
       \<noteq> CheckedIn
   \<and> map status (bookings worldCheckedIn) = [Active]"
  by code_simp

subsection \<open>Check-out\<close>






subsection \<open>Cancelling a finished booking frees nothing\<close>

text \<open>
  Only \<open>active\<close> bookings are counted, so whatever the cancel handler does with
  a cancelled, completed or expired booking, every count of active bookings,
  and with it every availability, stays as it was.
\<close>

lemma cancel_of_terminal_keeps_counts:
  assumes "distinct (map bid (bookings w))"
    and "findBooking i (bookings w) = Some b"
    and "status b = Cancelled \<or> status b = Completed \<or> status b = Expired"
  shows "countActive z lo hi (bookings (snd (cancelBooking t u i w)))
           = countActive z lo hi (bookings w)"
proof -
  from assms(2) have mem: "b \<in> set (bookings w)" and i: "bid b = i"
    by (auto simp: findBooking_def find_Some_iff)
  let ?c = "b\<lparr>status := Cancelled\<rparr>"
  have "countActive z lo hi (saveBooking ?c (bookings w)) = countActive z lo hi (bookings w)"
    using countActive_saveBooking [OF assms(1) mem, of ?c z lo hi] assms(3)
    by (auto simp: countActive_single)
  then show ?thesis
    using assms(2)
    by (auto simp: cancelBooking_def Let_def broadcast_def createNotification_def
             split: option.splits)
qed

subsection \<open>The expiry job\<close>

lemma expire_fields [simp]:
  "bid (expire t b) = bid b" "userId (expire t b) = userId b"
  "zoneId (expire t b) = zoneId b" "zoneName (expire t b) = zoneName b"
  "date (expire t b) = date b" "status (expire t b) = Expired"
  by (simp_all add: expire_def)
















end
